theory Spec2Isabelle
  imports Main "HOL-Library.Word"
begin

section \<open>Content encoding: \<open>Buffer.from(convertString).toString('base64')\<close>\<close>

text \<open>
  \<open>convertToBase64\<close> hands its argument to Node's \<open>Buffer.from\<close> and renders the
  buffer with \<open>toString('base64')\<close>. Neither function is code of the repository; both
  are modelled from their documented behaviour: \<open>Buffer.from\<close> copies a byte array
  and encodes a string (a sequence of UTF-16 code units) as UTF-8, replacing a lone
  surrogate by U+FFFD; \<open>toString('base64')\<close> is the padded base64 of RFC 4648 over
  the standard alphabet.
\<close>

type_synonym byte = "8 word"

datatype content = Text "16 word list" | Bytes "byte list"

definition is_high_surrogate :: "nat \<Rightarrow> bool" where
  "is_high_surrogate n = (55296 \<le> n \<and> n < 56320)"

definition is_low_surrogate :: "nat \<Rightarrow> bool" where
  "is_low_surrogate n = (56320 \<le> n \<and> n < 57344)"

definition utf8_of_code_point :: "nat \<Rightarrow> byte list" where
  "utf8_of_code_point n =
     (if n < 128 then [of_nat n]
      else if n < 2048 then [of_nat (192 + n div 64), of_nat (128 + n mod 64)]
      else if n < 65536 then
        [of_nat (224 + n div 4096), of_nat (128 + n div 64 mod 64), of_nat (128 + n mod 64)]
      else
        [of_nat (240 + n div 262144), of_nat (128 + n div 4096 mod 64),
         of_nat (128 + n div 64 mod 64), of_nat (128 + n mod 64)])"

definition replacement_character :: nat where
  "replacement_character = 65533"

fun utf8_encode :: "16 word list \<Rightarrow> byte list" where
  "utf8_encode [] = []"
| "utf8_encode [u] =
     (if is_high_surrogate (unat u) \<or> is_low_surrogate (unat u)
      then utf8_of_code_point replacement_character
      else utf8_of_code_point (unat u))"
| "utf8_encode (u # v # ws) =
     (if is_high_surrogate (unat u) then
        (if is_low_surrogate (unat v)
         then utf8_of_code_point (65536 + (unat u - 55296) * 1024 + (unat v - 56320))
                @ utf8_encode ws
         else utf8_of_code_point replacement_character @ utf8_encode (v # ws))
      else if is_low_surrogate (unat u)
        then utf8_of_code_point replacement_character @ utf8_encode (v # ws)
      else utf8_of_code_point (unat u) @ utf8_encode (v # ws))"

fun buffer_from :: "content \<Rightarrow> byte list" where
  "buffer_from (Text t) = utf8_encode t"
| "buffer_from (Bytes bs) = bs"

definition base64_alphabet :: string where
  "base64_alphabet = ''ABCDEFGHIJKLMNOPQRSTUVWXYZabcdefghijklmnopqrstuvwxyz0123456789+/''"

definition base64_char :: "nat \<Rightarrow> char" where
  "base64_char n = base64_alphabet ! (n mod 64)"

fun base64_encode :: "byte list \<Rightarrow> string" where
  "base64_encode [] = []"
| "base64_encode [a] =
     [base64_char (unat a div 4), base64_char (unat a mod 4 * 16), CHR ''='', CHR ''='']"
| "base64_encode [a, b] =
     [base64_char (unat a div 4),
      base64_char (unat a mod 4 * 16 + unat b div 16),
      base64_char (unat b mod 16 * 4), CHR ''='']"
| "base64_encode (a # b # c # rest) =
     [base64_char (unat a div 4),
      base64_char (unat a mod 4 * 16 + unat b div 16),
      base64_char (unat b mod 16 * 4 + unat c div 64),
      base64_char (unat c mod 64)] @ base64_encode rest"

definition convertToBase64 :: "content \<Rightarrow> string" where
  "convertToBase64 convertString = base64_encode (buffer_from convertString)"

subsection \<open>A reference decoder\<close>

text \<open>
  The repository never decodes. The decoder below is the inverse that RFC 4648
  describes: four characters give three bytes, and only the last group may end in
  one or two \<open>=\<close>. Anything else is rejected.
\<close>

fun index_of :: "'a \<Rightarrow> 'a list \<Rightarrow> nat option" where
  "index_of x [] = None"
| "index_of x (y # ys) = (if x = y then Some 0 else map_option Suc (index_of x ys))"

definition base64_value :: "char \<Rightarrow> nat option" where
  "base64_value c = index_of c base64_alphabet"

definition decode_group :: "char \<Rightarrow> char \<Rightarrow> char \<Rightarrow> char \<Rightarrow> byte list option" where
  "decode_group c1 c2 c3 c4 =
     (case (base64_value c1, base64_value c2, base64_value c3, base64_value c4) of
        (Some x, Some y, Some z, Some w) \<Rightarrow>
          Some [of_nat (x * 4 + y div 16), of_nat (y mod 16 * 16 + z div 4),
                of_nat (z mod 4 * 64 + w)]
      | _ \<Rightarrow> None)"

definition decode_last_group :: "char \<Rightarrow> char \<Rightarrow> char \<Rightarrow> char \<Rightarrow> byte list option" where
  "decode_last_group c1 c2 c3 c4 =
     (if c3 = CHR ''='' \<and> c4 = CHR ''='' then
        (case (base64_value c1, base64_value c2) of
           (Some x, Some y) \<Rightarrow> Some [of_nat (x * 4 + y div 16)]
         | _ \<Rightarrow> None)
      else if c4 = CHR ''='' then
        (case (base64_value c1, base64_value c2, base64_value c3) of
           (Some x, Some y, Some z) \<Rightarrow>
             Some [of_nat (x * 4 + y div 16), of_nat (y mod 16 * 16 + z div 4)]
         | _ \<Rightarrow> None)
      else decode_group c1 c2 c3 c4)"

fun base64_decode :: "string \<Rightarrow> byte list option" where
  "base64_decode [] = Some []"
| "base64_decode (c1 # c2 # c3 # c4 # rest) =
     (if rest = [] then decode_last_group c1 c2 c3 c4
      else (case decode_group c1 c2 c3 c4 of
              None \<Rightarrow> None
            | Some bs \<Rightarrow> map_option ((@) bs) (base64_decode rest)))"
| "base64_decode _ = None"

section \<open>JavaScript values, errors and the console\<close>

text \<open>
  The values the client handles: what the remote API returns (JSON: objects as lists
  of fields, the first binding of a name being the field's value, strings, null) and
  \<open>undefined\<close>. Numbers, booleans and arrays are left out: the client reads six field
  names (\<open>response\<close>, \<open>data\<close>, \<open>message\<close>, \<open>login\<close>, \<open>name\<close>, \<open>url\<close>) and
  interpolates what it finds into strings.
\<close>

datatype jsval = JUndefined | JNull | JStr string | JObj "(string \<times> jsval) list"

fun nullish :: "jsval \<Rightarrow> bool" where
  "nullish JUndefined = True"
| "nullish JNull = True"
| "nullish (JStr s) = False"
| "nullish (JObj fields) = False"

text \<open>\<open>!v\<close>: undefined, null and the empty string are falsy.\<close>

fun falsy :: "jsval \<Rightarrow> bool" where
  "falsy JUndefined = True"
| "falsy JNull = True"
| "falsy (JStr s) = (s = [])"
| "falsy (JObj fields) = False"

fun property :: "jsval \<Rightarrow> string \<Rightarrow> jsval" where
  "property (JObj fields) k = (case map_of fields k of None \<Rightarrow> JUndefined | Some v \<Rightarrow> v)"
| "property v k = JUndefined"

text \<open>
  What a \<open>throw\<close> or a rejected promise carries: the two errors the language itself
  raises here (an identifier that no scope binds; a property read on null or
  undefined, or an object that cannot be converted to a string), each with the name
  it failed on, or the value a request was rejected with.
\<close>

datatype jserr = ReferenceError string | TypeError string | Rejection jsval

text \<open>
  \<open>`${v}`\<close>: the string a template literal puts in place of a value. An object is
  converted through its \<open>toString\<close>: the inherited one gives \<open>[object Object]\<close>, but
  an own field of that name hides it, and as no value here is callable (and
  \<open>valueOf\<close> never yields a primitive) the conversion then raises a TypeError.
\<close>

fun to_string :: "jsval \<Rightarrow> jserr + string" where
  "to_string JUndefined = Inr ''undefined''"
| "to_string JNull = Inr ''null''"
| "to_string (JStr s) = Inr s"
| "to_string (JObj fields) =
     (case map_of fields ''toString'' of
        None \<Rightarrow> Inr ''[object Object]''
      | Some v \<Rightarrow> Inl (TypeError ''toString''))"

text \<open>\<open>v.k\<close> and \<open>v?.k\<close>.\<close>

definition member :: "jsval \<Rightarrow> string \<Rightarrow> jserr + jsval" where
  "member v k = (if nullish v then Inl (TypeError k) else Inr (property v k))"

definition optional_member :: "jsval \<Rightarrow> string \<Rightarrow> jsval" where
  "optional_member v k = (if nullish v then JUndefined else property v k)"

text \<open>
  \<open>error.response?.data?.message\<close>, the expression every \<open>catch\<close> block starts with.
  A ReferenceError or TypeError object has no \<open>response\<close> property; reading
  \<open>response\<close> off a rejection value that is null or undefined raises in turn.
\<close>

fun error_response :: "jserr \<Rightarrow> jserr + jsval" where
  "error_response (Rejection v) = member v ''response''"
| "error_response (ReferenceError x) = Inr JUndefined"
| "error_response (TypeError x) = Inr JUndefined"

definition remote_message :: "jserr \<Rightarrow> jserr + jsval" where
  "remote_message error =
     (case error_response error of
        Inl e \<Rightarrow> Inl e
      | Inr r \<Rightarrow> Inr (optional_member (optional_member r ''data'') ''message''))"

section \<open>The remote API, the module's scope and the session\<close>

record request =
  route :: string
  params :: "(string \<times> jsval) list"

datatype response = Resolved jsval | Rejected jsval

text \<open>
  A remote answers a request, given the requests it has received before, by resolving
  with a response object or by rejecting with an error value.
\<close>

type_synonym remote = "request list \<Rightarrow> request \<Rightarrow> response"

text \<open>
  What the free identifiers of the class body resolve to. The methods write
  \<open>octokit.request(...)\<close> with the bare identifier \<open>octokit\<close>, and the \<open>catch\<close> block
  of \<open>uploadFileToRepository\<close> reads the bare identifier \<open>repository\<close>, whose
  \<open>const\<close> declaration is local to the \<open>try\<close> block. Neither is a parameter, a local
  or a name the module imports or declares (it has \<open>Octokit\<close>, \<open>dotenv\<close>,
  \<open>uuidv4\<close>, \<open>ICONPortfolio\<close> and \<open>icon\<close>), so both are looked up in the global
  scope: \<open>None\<close> is an identifier nothing binds, whose evaluation raises a
  ReferenceError. \<open>AUTH_TOKEN\<close> is \<open>process.env.AUTH_TOKEN\<close> after
  \<open>dotenv.config()\<close>, and \<open>uuidv4 n\<close> is what the \<open>n\<close>-th call of the random
  generator returns.
\<close>

record environment =
  octokit_binding :: "remote option"
  repository_binding :: "jsval option"
  AUTH_TOKEN :: "string option"
  uuidv4 :: "nat \<Rightarrow> string"

text \<open>
  The module run as it stands, by Node: the global object has no \<open>octokit\<close> and
  no \<open>repository\<close>.
\<close>

definition node_module :: "string option \<Rightarrow> (nat \<Rightarrow> string) \<Rightarrow> environment" where
  "node_module token uuids =
     \<lparr>octokit_binding = None, repository_binding = None,
      AUTH_TOKEN = token, uuidv4 = uuids\<rparr>"

text \<open>The same module with a remote placed under the global name \<open>octokit\<close>.\<close>

definition with_global_octokit :: "remote \<Rightarrow> environment \<Rightarrow> environment" where
  "with_global_octokit api env = env\<lparr>octokit_binding := Some api\<rparr>"

datatype handle = Octokit "string option"

datatype event = Log jsval | Sent request

text \<open>
  The three fields of an \<open>ICONPortfolio\<close> instance, with what the process has
  written to the console and sent to the remote so far, in order, and the number of
  \<open>uuidv4()\<close> calls made.
\<close>

record state =
  octokit :: "handle option"
  user :: jsval
  repository :: jsval
  events :: "event list"
  uuid_calls :: nat

definition new_ICONPortfolio :: state where
  "new_ICONPortfolio =
     \<lparr>octokit = None, user = JNull, repository = JNull, events = [], uuid_calls = 0\<rparr>"

fun sent_of :: "event list \<Rightarrow> request list" where
  "sent_of [] = []"
| "sent_of (Log v # es) = sent_of es"
| "sent_of (Sent rq # es) = rq # sent_of es"

definition sent :: "state \<Rightarrow> request list" where
  "sent s = sent_of (events s)"

definition console_log :: "jsval \<Rightarrow> state \<Rightarrow> state" where
  "console_log v s = s\<lparr>events := events s @ [Log v]\<rparr>"

text \<open>\<open>await api.request(route, params)\<close>: the request goes out, the remote answers.\<close>

definition await_request :: "remote \<Rightarrow> request \<Rightarrow> state \<Rightarrow> response \<times> state" where
  "await_request api rq s = (api (sent s) rq, s\<lparr>events := events s @ [Sent rq]\<rparr>)"

text \<open>How a call of an async method ends: its promise is fulfilled or rejected.\<close>

datatype completion = Returned jsval | Threw jserr

section \<open>The class \<open>ICONPortfolio\<close>\<close>

text \<open>
  Every method is a \<open>try\<close> block followed by a \<open>catch\<close> block. A \<open>try\<close> block is
  modelled by the state it leaves and the error it raised, if any; the \<open>catch\<close> block
  runs \<open>console.log(error.response?.data?.message ?? fallback)\<close>, where evaluating
  the fallback can itself raise.
\<close>

definition catch_log :: "jserr \<Rightarrow> jserr + string \<Rightarrow> state \<Rightarrow> completion \<times> state" where
  "catch_log error fallback s =
     (case remote_message error of
        Inl e \<Rightarrow> (Threw e, s)
      | Inr m \<Rightarrow>
          if nullish m then
            (case fallback of
               Inl e \<Rightarrow> (Threw e, s)
             | Inr text \<Rightarrow> (Returned JUndefined, console_log (JStr text) s))
          else (Returned JUndefined, console_log m s))"

subsection \<open>\<open>getUser(username)\<close>\<close>

definition getUser_try :: "environment \<Rightarrow> string \<Rightarrow> state \<Rightarrow> jserr option \<times> state" where
  "getUser_try env username s =
     (case octokit_binding env of
        None \<Rightarrow> (Some (ReferenceError ''octokit''), s)
      | Some api \<Rightarrow>
          (case await_request api
                  \<lparr>route = ''GET /users/'' @ username,
                   params = [(''username'', JStr username)]\<rparr> s of
             (Rejected e, s1) \<Rightarrow> (Some (Rejection e), s1)
           | (Resolved r, s1) \<Rightarrow>
               (case member r ''data'' of
                  Inl e \<Rightarrow> (Some e, s1)
                | Inr d \<Rightarrow>
                    (case member d ''login'' of
                       Inl e \<Rightarrow> (Some e, s1\<lparr>user := d\<rparr>)
                     | Inr login \<Rightarrow>
                         (case to_string login of
                            Inl e \<Rightarrow> (Some e, s1\<lparr>user := d\<rparr>)
                          | Inr login_text \<Rightarrow>
                              (None, console_log (JStr (login_text @ '' is authenticated''))
                                       (s1\<lparr>user := d\<rparr>)))))))"

definition getUser_catch :: "string \<Rightarrow> jserr \<Rightarrow> state \<Rightarrow> completion \<times> state" where
  "getUser_catch username error s =
     catch_log error
       (Inr (''Can't get username for user '' @ username @ ''. Please try again.'')) s"

definition getUser :: "environment \<Rightarrow> string \<Rightarrow> state \<Rightarrow> completion \<times> state" where
  "getUser env username s =
     (case getUser_try env username s of
        (None, s1) \<Rightarrow> (Returned JUndefined, s1)
      | (Some error, s1) \<Rightarrow> getUser_catch username error s1)"

subsection \<open>\<open>authenticate(username, token = process.env.AUTH_TOKEN)\<close>\<close>

text \<open>An absent variable or argument is \<open>None\<close>; \<open>!t\<close> also holds of the empty string.\<close>

fun no_token :: "string option \<Rightarrow> bool" where
  "no_token None = True"
| "no_token (Some t) = (t = [])"

definition authenticate ::
  "environment \<Rightarrow> string \<Rightarrow> string option \<Rightarrow> state \<Rightarrow> completion \<times> state" where
  "authenticate env username token_argument s =
     (let token = (case token_argument of None \<Rightarrow> AUTH_TOKEN env | Some t \<Rightarrow> Some t);
          s1 = (if no_token (AUTH_TOKEN env) \<and> no_token token
                then console_log
                  (JStr ''Can't authenticate to Octokit with invalid token. Please recheck your token'') s
                else s);
          s2 = s1\<lparr>octokit := Some (Octokit token)\<rparr>
      in getUser env username s2)"

subsection \<open>\<open>createRepository(name)\<close>\<close>

definition createRepository_try ::
  "environment \<Rightarrow> string option \<Rightarrow> state \<Rightarrow> jserr option \<times> state" where
  "createRepository_try env name s =
     (case octokit_binding env of
        None \<Rightarrow> (Some (ReferenceError ''octokit''), s)
      | Some api \<Rightarrow>
          (let (repo_name, s0) =
                 (case name of
                    Some n \<Rightarrow> (n, s)
                  | None \<Rightarrow> (''ICON Web Portfolio '' @ uuidv4 env (uuid_calls s),
                              s\<lparr>uuid_calls := Suc (uuid_calls s)\<rparr>))
           in case await_request api
                     \<lparr>route = ''POST /user/repos'',
                      params = [(''name'', JStr repo_name)]\<rparr> s0 of
                (Rejected e, s1) \<Rightarrow> (Some (Rejection e), s1)
              | (Resolved r, s1) \<Rightarrow>
                  (case member r ''data'' of
                     Inl e \<Rightarrow> (Some e, s1)
                   | Inr d \<Rightarrow>
                       (case member d ''name'' of
                          Inl e \<Rightarrow> (Some e, s1\<lparr>repository := d\<rparr>)
                        | Inr created \<Rightarrow>
                            (case to_string created of
                               Inl e \<Rightarrow> (Some e, s1\<lparr>repository := d\<rparr>)
                             | Inr created_text \<Rightarrow>
                                 (None, console_log (JStr (created_text @ '' was created''))
                                          (s1\<lparr>repository := d\<rparr>)))))))"

definition createRepository_catch :: "jserr \<Rightarrow> state \<Rightarrow> completion \<times> state" where
  "createRepository_catch error s =
     catch_log error (Inr ''Can't create a new repository. Please try again.'') s"

definition createRepository ::
  "environment \<Rightarrow> string option \<Rightarrow> state \<Rightarrow> completion \<times> state" where
  "createRepository env name s =
     (case createRepository_try env name s of
        (None, s1) \<Rightarrow> (Returned JUndefined, s1)
      | (Some error, s1) \<Rightarrow> createRepository_catch error s1)"

subsection \<open>\<open>getRepository(name)\<close>\<close>

definition getRepository_try :: "environment \<Rightarrow> string \<Rightarrow> state \<Rightarrow> jserr option \<times> state" where
  "getRepository_try env name s =
     (case member (user s) ''login'' of
        Inl e \<Rightarrow> (Some e, s)
      | Inr owner \<Rightarrow>
          (case octokit_binding env of
             None \<Rightarrow> (Some (ReferenceError ''octokit''), s)
           | Some api \<Rightarrow>
               (case to_string owner of
                  Inl e \<Rightarrow> (Some e, s)
                | Inr owner_text \<Rightarrow>
                    (case await_request api
                            \<lparr>route = ''GET /repos/'' @ owner_text @ ''/'' @ name,
                             params = [(''owner'', owner), (''repo'', JStr name)]\<rparr> s of
                       (Rejected e, s1) \<Rightarrow> (Some (Rejection e), s1)
                     | (Resolved r, s1) \<Rightarrow>
                         (case member r ''data'' of
                            Inl e \<Rightarrow> (Some e, s1)
                          | Inr d \<Rightarrow>
                              (case member d ''name'' of
                                 Inl e \<Rightarrow> (Some e, s1\<lparr>repository := d\<rparr>)
                               | Inr found \<Rightarrow>
                                   (case to_string found of
                                      Inl e \<Rightarrow> (Some e, s1\<lparr>repository := d\<rparr>)
                                    | Inr found_text \<Rightarrow>
                                        (None,
                                         console_log
                                           (JStr (''Successfully get detail of '' @ found_text))
                                           (s1\<lparr>repository := d\<rparr>)))))))))"

definition getRepository_catch :: "string \<Rightarrow> jserr \<Rightarrow> state \<Rightarrow> completion \<times> state" where
  "getRepository_catch name error s =
     catch_log error (Inr (''Can't get the detail of the repository '' @ name)) s"

definition getRepository :: "environment \<Rightarrow> string \<Rightarrow> state \<Rightarrow> completion \<times> state" where
  "getRepository env name s =
     (case getRepository_try env name s of
        (None, s1) \<Rightarrow> (Returned JUndefined, s1)
      | (Some error, s1) \<Rightarrow> getRepository_catch name error s1)"

subsection \<open>\<open>uploadFileToRepository(filePath, content)\<close>\<close>

text \<open>
  The first statement of the method: \<open>if (!this.user || !this.repository)\<close> logs a
  notice. It does not return.
\<close>

definition precondition_notice :: "state \<Rightarrow> state" where
  "precondition_notice s =
     (if falsy (user s) \<or> falsy (repository s)
      then console_log
        (JStr ''Please authenticate and create repository methods before uploading a file'') s
      else s)"

definition uploadFileToRepository_try ::
  "environment \<Rightarrow> string \<Rightarrow> content \<Rightarrow> state \<Rightarrow> jserr option \<times> state" where
  "uploadFileToRepository_try env filePath file_content s =
     (let s0 = precondition_notice s
      in case member (user s0) ''login'' of
           Inl e \<Rightarrow> (Some e, s0)
         | Inr owner \<Rightarrow>
             (case member (repository s0) ''name'' of
                Inl e \<Rightarrow> (Some e, s0)
              | Inr repo \<Rightarrow>
                  (let base64Content = convertToBase64 file_content
                   in case octokit_binding env of
                        None \<Rightarrow> (Some (ReferenceError ''octokit''), s0)
                      | Some api \<Rightarrow>
                          (case to_string owner of
                             Inl e \<Rightarrow> (Some e, s0)
                           | Inr owner_text \<Rightarrow>
                               (case to_string repo of
                                  Inl e \<Rightarrow> (Some e, s0)
                                | Inr repo_text \<Rightarrow>
                                    (case await_request api
                                            \<lparr>route = ''PUT /repos/'' @ owner_text @ ''/''
                                                       @ repo_text @ ''/contents/'' @ filePath,
                                             params =
                                               [(''owner'', owner), (''repo'', repo),
                                                (''path'', JStr filePath),
                                                (''message'',
                                                 JStr (''create a new '' @ filePath)),
                                                (''content'', JStr base64Content)]\<rparr> s0 of
                                       (Rejected e, s1) \<Rightarrow> (Some (Rejection e), s1)
                                     | (Resolved r, s1) \<Rightarrow>
                                         (None,
                                          console_log
                                            (JStr (filePath @ '' is uploaded successfully''))
                                            s1)))))))"

text \<open>
  The fallback message of this \<open>catch\<close> block interpolates \<open>repository\<close>, which is
  not in scope there.
\<close>

definition uploadFileToRepository_catch ::
  "environment \<Rightarrow> string \<Rightarrow> jserr \<Rightarrow> state \<Rightarrow> completion \<times> state" where
  "uploadFileToRepository_catch env filePath error s =
     catch_log error
       (case repository_binding env of
          None \<Rightarrow> Inl (ReferenceError ''repository'')
        | Some v \<Rightarrow>
            (case to_string v of
               Inl e \<Rightarrow> Inl e
             | Inr repository_text \<Rightarrow>
                 Inr (''Can't upload '' @ filePath @ '' to the repository ''
                      @ repository_text))) s"

definition uploadFileToRepository ::
  "environment \<Rightarrow> string \<Rightarrow> content \<Rightarrow> state \<Rightarrow> completion \<times> state" where
  "uploadFileToRepository env filePath file_content s =
     (case uploadFileToRepository_try env filePath file_content s of
        (None, s1) \<Rightarrow> (Returned JUndefined, s1)
      | (Some error, s1) \<Rightarrow> uploadFileToRepository_catch env filePath error s1)"

subsection \<open>\<open>createGithubPage()\<close>\<close>

definition createGithubPage_try :: "environment \<Rightarrow> state \<Rightarrow> jserr option \<times> state" where
  "createGithubPage_try env s =
     (case member (user s) ''login'' of
        Inl e \<Rightarrow> (Some e, s)
      | Inr owner \<Rightarrow>
          (case member (repository s) ''name'' of
             Inl e \<Rightarrow> (Some e, s)
           | Inr repo \<Rightarrow>
               (case octokit_binding env of
                  None \<Rightarrow> (Some (ReferenceError ''octokit''), s)
                | Some api \<Rightarrow>
                    (case to_string owner of
                       Inl e \<Rightarrow> (Some e, s)
                     | Inr owner_text \<Rightarrow>
                         (case to_string repo of
                            Inl e \<Rightarrow> (Some e, s)
                          | Inr repo_text \<Rightarrow>
                              (case await_request api
                                      \<lparr>route = ''POST /repos/'' @ owner_text @ ''/''
                                                 @ repo_text @ ''/pages'',
                                       params =
                                         [(''owner'', owner), (''repo'', repo),
                                          (''source'',
                                           JObj [(''branch'', JStr ''main''),
                                                 (''path'', JStr ''/'')]),
                                          (''build_type'', JStr ''workflow'')]\<rparr> s of
                                 (Rejected e, s1) \<Rightarrow> (Some (Rejection e), s1)
                               | (Resolved r, s1) \<Rightarrow>
                                   (case member r ''data'' of
                                      Inl e \<Rightarrow> (Some e, s1)
                                    | Inr d \<Rightarrow>
                                        (case member d ''url'' of
                                           Inl e \<Rightarrow> (Some e, s1)
                                         | Inr url \<Rightarrow>
                                             (case to_string url of
                                                Inl e \<Rightarrow> (Some e, s1)
                                              | Inr url_text \<Rightarrow>
                                                  (None,
                                                   console_log
                                                     (JStr (url_text @ '' is being created''))
                                                     s1))))))))))"

definition createGithubPage_catch :: "jserr \<Rightarrow> state \<Rightarrow> completion \<times> state" where
  "createGithubPage_catch error s =
     catch_log error
       (case member (repository s) ''name'' of
          Inl e \<Rightarrow> Inl e
        | Inr n \<Rightarrow>
            (case to_string n of
               Inl e \<Rightarrow> Inl e
             | Inr name_text \<Rightarrow>
                 Inr (''Can't create a Github Pages for the repository '' @ name_text))) s"

definition createGithubPage :: "environment \<Rightarrow> state \<Rightarrow> completion \<times> state" where
  "createGithubPage env s =
     (case createGithubPage_try env s of
        (None, s1) \<Rightarrow> (Returned JUndefined, s1)
      | (Some error, s1) \<Rightarrow> createGithubPage_catch error s1)"

section \<open>Sequences of calls\<close>

datatype operation =
    Authenticate string "string option"
  | GetUser string
  | CreateRepository "string option"
  | GetRepository string
  | UploadFileToRepository string content
  | CreateGithubPage

fun perform :: "environment \<Rightarrow> operation \<Rightarrow> state \<Rightarrow> completion \<times> state" where
  "perform env (Authenticate username token) s = authenticate env username token s"
| "perform env (GetUser username) s = getUser env username s"
| "perform env (CreateRepository name) s = createRepository env name s"
| "perform env (GetRepository name) s = getRepository env name s"
| "perform env (UploadFileToRepository filePath file_content) s =
     uploadFileToRepository env filePath file_content s"
| "perform env CreateGithubPage s = createGithubPage env s"

text \<open>
  A caller that goes on to the next call whatever the last one did, and the state it
  ends in.
\<close>

fun run :: "environment \<Rightarrow> operation list \<Rightarrow> state \<Rightarrow> state" where
  "run env [] s = s"
| "run env (x # xs) s = run env xs (snd (perform env x s))"

text \<open>
  A script of top-level \<open>await\<close>s, like the example call that ends the module: the
  first call that throws ends the process.
\<close>

fun script :: "environment \<Rightarrow> operation list \<Rightarrow> state \<Rightarrow> completion \<times> state" where
  "script env [] s = (Returned JUndefined, s)"
| "script env (x # xs) s =
     (case perform env x s of
        (Threw e, s1) \<Rightarrow> (Threw e, s1)
      | (Returned v, s1) \<Rightarrow> script env xs s1)"

definition ascii :: "string \<Rightarrow> content" where
  "ascii text = Text (map (\<lambda>c. of_nat (of_char c)) text)"

definition example_page :: string where
  "example_page = ''
<!DOCTYPE html>
<html>
<head>
<title>Page Title</title>
</head>
<body>

<h1>My First Heading</h1>
<p>My first paragraph.</p>

</body>
</html>
''"

definition example_call :: "operation list" where
  "example_call =
     [Authenticate ''iconclub'' None, CreateRepository None,
      UploadFileToRepository ''index.html'' (ascii example_page), CreateGithubPage]"

section \<open>Sample inputs\<close>

text \<open>
  A generator that always answers with the same identifier, a session as a successful
  \<open>authenticate\<close> and \<open>createRepository\<close> are meant to leave it, a remote that misses
  every repository, and a remote that answers every request with a Pages site.
\<close>

definition fixed_uuid :: "nat \<Rightarrow> string" where
  "fixed_uuid n = ''9b1deb4d-3b7d-4bad-9bdd-2b0d7b3dcb6d''"

definition octo_session :: state where
  "octo_session =
     new_ICONPortfolio\<lparr>user := JObj [(''login'', JStr ''octo-user'')],
                        repository := JObj [(''name'', JStr ''demo-site'')]\<rparr>"

definition not_found :: jsval where
  "not_found =
     JObj [(''response'', JObj [(''data'', JObj [(''message'', JStr ''Not Found'')])])]"

definition missing_repository_remote :: remote where
  "missing_repository_remote history rq = Rejected not_found"

definition pages_remote :: remote where
  "pages_remote history rq =
     Resolved
       (JObj [(''data'', JObj [(''url'', JStr ''https://octo-user.github.io/demo-site/'')])])"

definition profile_remote :: remote where
  "profile_remote history rq =
     Resolved (JObj [(''data'', JObj [(''login'', JStr ''octo-user'')])])"

section \<open>Properties of the encoding\<close>

lemma index_of_nth:
  "distinct xs \<Longrightarrow> n < length xs \<Longrightarrow> index_of (xs ! n) xs = Some n"
proof (induction xs arbitrary: n)
  case Nil
  then show ?case by simp
next
  case (Cons y ys)
  show ?case
  proof (cases n)
    case 0
    then show ?thesis by simp
  next
    case (Suc m)
    with Cons.prems have "ys ! m \<noteq> y" and "index_of (ys ! m) ys = Some m"
      using Cons.IH [of m] by auto
    with Suc show ?thesis by simp
  qed
qed

lemma distinct_base64_alphabet: "distinct base64_alphabet"
  by (simp add: base64_alphabet_def)

lemma length_base64_alphabet: "length base64_alphabet = 64"
  by (simp add: base64_alphabet_def)

lemma base64_value_char: "n < 64 \<Longrightarrow> base64_value (base64_char n) = Some n"
  by (simp add: base64_value_def base64_char_def index_of_nth
      distinct_base64_alphabet length_base64_alphabet)

lemma base64_char_not_pad: "base64_char n \<noteq> CHR ''=''"
proof -
  have "base64_char n \<in> set base64_alphabet"
    by (simp add: base64_char_def length_base64_alphabet)
  moreover have "CHR ''='' \<notin> set base64_alphabet"
    by (simp add: base64_alphabet_def)
  ultimately show ?thesis by metis
qed


lemma sextet_bound_2: "b < 256 \<Longrightarrow> (a::nat) mod 4 * 16 + b div 16 < 64"
proof -
  assume "b < 256"
  then have "b div 16 < 16" by simp
  moreover have "a mod 4 < 4" by simp
  ultimately show ?thesis by linarith
qed

lemma sextet_bound_2_pad: "(a::nat) mod 4 * 16 < 64"
proof -
  have "a mod 4 < 4" by simp
  then show ?thesis by linarith
qed

lemma sextet_bound_3: "c < 256 \<Longrightarrow> (b::nat) mod 16 * 4 + c div 64 < 64"
proof -
  assume "c < 256"
  then have "c div 64 < 4" by simp
  moreover have "b mod 16 < 16" by simp
  ultimately show ?thesis by linarith
qed

lemma sextet_bound_3_pad: "(b::nat) mod 16 * 4 < 64"
proof -
  have "b mod 16 < 16" by simp
  then show ?thesis by linarith
qed

lemma regroup_first: "(b::nat) < 256 \<Longrightarrow> a div 4 * 4 + (a mod 4 * 16 + b div 16) div 16 = a"
  by simp

lemma regroup_second:
  "(b::nat) < 256 \<Longrightarrow> c < 256 \<Longrightarrow>
     (a mod 4 * 16 + b div 16) mod 16 * 16 + (b mod 16 * 4 + c div 64) div 4 = b"
  by simp

lemma regroup_second_pad:
  "(b::nat) < 256 \<Longrightarrow> (a mod 4 * 16 + b div 16) mod 16 * 16 + b mod 16 * 4 div 4 = b"
  by simp

lemma regroup_third:
  "(c::nat) < 256 \<Longrightarrow> (b mod 16 * 4 + c div 64) mod 4 * 64 + c mod 64 = c"
  by simp

lemma byte_bound: "unat (a::byte) < 256"
  using unsigned_less [of a, where 'a = nat] by simp

lemma word_of_unat_eq: "n = unat a \<Longrightarrow> of_nat n = (a::byte)"
  by simp

lemma decode_last_group_one:
  "decode_last_group (base64_char (unat a div 4)) (base64_char (unat a mod 4 * 16))
     CHR ''='' CHR ''='' = Some [a]"
proof -
  have x: "unat a div 4 < 64" using byte_bound [of a] by simp
  have y: "unat a mod 4 * 16 < 64" by (rule sextet_bound_2_pad)
  have "unat a div 4 * 4 + unat a mod 4 * 16 div 16 = unat a" by simp
  then have "of_nat (unat a div 4 * 4 + unat a mod 4 * 16 div 16) = a"
    by (rule word_of_unat_eq)
  then show ?thesis
    by (simp only: decode_last_group_def base64_value_char [OF x] base64_value_char [OF y]
        simp_thms if_True prod.case option.case)
qed

lemma decode_last_group_two:
  "decode_last_group (base64_char (unat a div 4))
     (base64_char (unat a mod 4 * 16 + unat b div 16))
     (base64_char (unat b mod 16 * 4)) CHR ''='' = Some [a, b]"
proof -
  note bb = byte_bound [of b]
  have x: "unat a div 4 < 64" using byte_bound [of a] by simp
  have y: "unat a mod 4 * 16 + unat b div 16 < 64" using bb by (rule sextet_bound_2)
  have z: "unat b mod 16 * 4 < 64" by (rule sextet_bound_3_pad)
  have "unat a div 4 * 4 + (unat a mod 4 * 16 + unat b div 16) div 16 = unat a"
    using bb by (rule regroup_first)
  then have b1: "of_nat (unat a div 4 * 4 + (unat a mod 4 * 16 + unat b div 16) div 16) = a"
    by (rule word_of_unat_eq)
  have "(unat a mod 4 * 16 + unat b div 16) mod 16 * 16 + unat b mod 16 * 4 div 4 = unat b"
    using bb by (rule regroup_second_pad)
  then have b2: "of_nat ((unat a mod 4 * 16 + unat b div 16) mod 16 * 16
      + unat b mod 16 * 4 div 4) = b"
    by (rule word_of_unat_eq)
  show ?thesis
    by (simp only: decode_last_group_def base64_value_char [OF x] base64_value_char [OF y]
        base64_value_char [OF z] base64_char_not_pad b1 b2
        simp_thms if_True if_False prod.case option.case)
qed

lemma decode_group_three:
  "decode_group (base64_char (unat a div 4))
     (base64_char (unat a mod 4 * 16 + unat b div 16))
     (base64_char (unat b mod 16 * 4 + unat c div 64))
     (base64_char (unat c mod 64)) = Some [a, b, c]"
proof -
  note bb = byte_bound [of b] and bc = byte_bound [of c]
  have x: "unat a div 4 < 64" using byte_bound [of a] by simp
  have y: "unat a mod 4 * 16 + unat b div 16 < 64" using bb by (rule sextet_bound_2)
  have z: "unat b mod 16 * 4 + unat c div 64 < 64" using bc by (rule sextet_bound_3)
  have w: "unat c mod 64 < 64" by simp
  have "unat a div 4 * 4 + (unat a mod 4 * 16 + unat b div 16) div 16 = unat a"
    using bb by (rule regroup_first)
  then have b1: "of_nat (unat a div 4 * 4 + (unat a mod 4 * 16 + unat b div 16) div 16) = a"
    by (rule word_of_unat_eq)
  have "(unat a mod 4 * 16 + unat b div 16) mod 16 * 16
      + (unat b mod 16 * 4 + unat c div 64) div 4 = unat b"
    using bb bc by (rule regroup_second)
  then have b2: "of_nat ((unat a mod 4 * 16 + unat b div 16) mod 16 * 16
      + (unat b mod 16 * 4 + unat c div 64) div 4) = b"
    by (rule word_of_unat_eq)
  have "(unat b mod 16 * 4 + unat c div 64) mod 4 * 64 + unat c mod 64 = unat c"
    using bc by (rule regroup_third)
  then have b3: "of_nat ((unat b mod 16 * 4 + unat c div 64) mod 4 * 64 + unat c mod 64) = c"
    by (rule word_of_unat_eq)
  show ?thesis
    by (simp only: decode_group_def base64_value_char [OF x] base64_value_char [OF y]
        base64_value_char [OF z] base64_value_char [OF w] b1 b2 b3
        prod.case option.case)
qed

lemma decode_last_group_three:
  "decode_last_group (base64_char x) (base64_char y) (base64_char z) (base64_char w)
     = decode_group (base64_char x) (base64_char y) (base64_char z) (base64_char w)"
  by (simp only: decode_last_group_def base64_char_not_pad simp_thms if_False)

lemma base64_encode_empty_iff: "base64_encode bs = [] \<longleftrightarrow> bs = []"
  by (induction bs rule: base64_encode.induct) simp_all

text \<open>
  C8. Decoding what \<open>convertToBase64\<close> returns gives back the bytes that were encoded:
  the byte sequence itself for binary content, the empty sequence included, and the
  UTF-8 bytes of the text for a string, multi-byte characters included.
\<close>

theorem convertToBase64_roundtrip:
  "base64_decode (convertToBase64 (Bytes bs)) = Some bs
   \<and> base64_decode (convertToBase64 (Text t)) = Some (utf8_encode t)
   \<and> base64_decode (convertToBase64 (Bytes [])) = Some []"
proof -
  have roundtrip: "base64_decode (base64_encode bytes) = Some bytes" for bytes
  proof (induction bytes rule: base64_encode.induct)
    case 1
    show ?case by simp
  next
    case (2 a)
    show ?case by (simp add: decode_last_group_one)
  next
    case (3 a b)
    show ?case by (simp add: decode_last_group_two)
  next
    case (4 a b c rest)
    show ?case
    proof (cases "rest = []")
      case True
      then show ?thesis
        by (simp add: decode_last_group_three decode_group_three)
    next
      case False
      then have "base64_encode rest \<noteq> []"
        by (simp add: base64_encode_empty_iff)
      with 4 show ?thesis
        by (simp add: decode_group_three)
    qed
  qed
  show ?thesis
    by (simp add: convertToBase64_def roundtrip)
qed

section \<open>The console and the trace\<close>

lemma console_log_fields:
  "octokit (console_log v s) = octokit s"
  "user (console_log v s) = user s"
  "repository (console_log v s) = repository s"
  "uuid_calls (console_log v s) = uuid_calls s"
  "events (console_log v s) = events s @ [Log v]"
  by (simp_all add: console_log_def)

lemma sent_of_append: "sent_of (xs @ ys) = sent_of xs @ sent_of ys"
  by (induction xs rule: sent_of.induct) simp_all

lemma sent_console_log: "sent (console_log v s) = sent s"
  by (simp add: sent_def console_log_def sent_of_append)

lemma sent_field_updates:
  "sent (s\<lparr>octokit := h\<rparr>) = sent s"
  "sent (s\<lparr>user := d\<rparr>) = sent s"
  "sent (s\<lparr>repository := d\<rparr>) = sent s"
  "sent (s\<lparr>uuid_calls := n\<rparr>) = sent s"
  by (simp_all add: sent_def)

lemma sent_after_request: "sent (snd (await_request api rq s)) = sent s @ [rq]"
  by (simp add: await_request_def sent_def sent_of_append)

lemma precondition_notice_fields:
  "user (precondition_notice s) = user s"
  "repository (precondition_notice s) = repository s"
  "sent (precondition_notice s) = sent s"
  by (simp_all add: precondition_notice_def console_log_fields sent_console_log)

lemma remote_message_native:
  "remote_message (ReferenceError x) = Inr JUndefined"
  "remote_message (TypeError x) = Inr JUndefined"
  by (simp_all add: remote_message_def optional_member_def)

lemma catch_log_native:
  "catch_log (ReferenceError x) (Inr msg) s = (Returned JUndefined, console_log (JStr msg) s)"
  "catch_log (TypeError x) (Inr msg) s = (Returned JUndefined, console_log (JStr msg) s)"
  "catch_log (ReferenceError x) (Inl e) s = (Threw e, s)"
  "catch_log (TypeError x) (Inl e) s = (Threw e, s)"
  by (simp_all add: catch_log_def remote_message_native)

text \<open>
  A \<open>catch\<close> block whose fallback message cannot raise ends the call normally, unless
  the request was rejected with null or undefined.
\<close>

lemma catch_log_completion:
  "fst (catch_log error (Inr msg) s) = Returned JUndefined
     \<or> fst (catch_log error (Inr msg) s) = Threw (TypeError ''response'')"
  by (cases error)
    (simp_all add: catch_log_def remote_message_def member_def split: sum.splits)

lemma getUser_completion:
  "fst (getUser env username s) = Returned JUndefined
     \<or> fst (getUser env username s) = Threw (TypeError ''response'')"
proof (cases "getUser_try env username s")
  case (Pair raised s1)
  show ?thesis
  proof (cases raised)
    case None
    with Pair show ?thesis by (simp add: getUser_def)
  next
    case (Some error)
    with Pair show ?thesis
      using catch_log_completion [of error _ s1]
      by (simp add: getUser_def getUser_catch_def)
  qed
qed

section \<open>The module as it stands: nothing binds \<open>octokit\<close>\<close>

lemma node_module_fields:
  "octokit_binding (node_module token uuids) = None"
  "repository_binding (node_module token uuids) = None"
  "AUTH_TOKEN (node_module token uuids) = token"
  by (simp_all add: node_module_def)

lemma getUser_try_unbound:
  "octokit_binding env = None \<Longrightarrow>
     getUser_try env username s = (Some (ReferenceError ''octokit''), s)"
  by (simp add: getUser_try_def)

lemma getUser_unbound:
  "octokit_binding env = None \<Longrightarrow>
     getUser env username s =
       (Returned JUndefined,
        console_log
          (JStr (''Can't get username for user '' @ username @ ''. Please try again.'')) s)"
  by (simp add: getUser_def getUser_try_unbound getUser_catch_def catch_log_native)

lemma createRepository_try_unbound:
  "octokit_binding env = None \<Longrightarrow>
     createRepository_try env name s = (Some (ReferenceError ''octokit''), s)"
  by (simp add: createRepository_try_def)

lemma createRepository_unbound:
  "octokit_binding env = None \<Longrightarrow>
     createRepository env name s =
       (Returned JUndefined,
        console_log (JStr ''Can't create a new repository. Please try again.'') s)"
  by (simp add: createRepository_def createRepository_try_unbound createRepository_catch_def
      catch_log_native)

lemma getRepository_try_unbound:
  "octokit_binding env = None \<Longrightarrow>
     getRepository_try env name s =
       (Some (if nullish (user s) then TypeError ''login'' else ReferenceError ''octokit''), s)"
  by (simp add: getRepository_try_def member_def)

lemma getRepository_unbound:
  "octokit_binding env = None \<Longrightarrow>
     getRepository env name s =
       (Returned JUndefined,
        console_log (JStr (''Can't get the detail of the repository '' @ name)) s)"
  by (simp add: getRepository_def getRepository_try_unbound getRepository_catch_def
      catch_log_native)

lemma uploadFileToRepository_try_unbound:
  "octokit_binding env = None \<Longrightarrow>
     uploadFileToRepository_try env filePath file_content s =
       (Some (if nullish (user s) then TypeError ''login''
              else if nullish (repository s) then TypeError ''name''
              else ReferenceError ''octokit''),
        precondition_notice s)"
  by (simp add: uploadFileToRepository_try_def member_def precondition_notice_fields Let_def)

lemma uploadFileToRepository_unbound:
  "octokit_binding env = None \<Longrightarrow> repository_binding env = None \<Longrightarrow>
     uploadFileToRepository env filePath file_content s =
       (Threw (ReferenceError ''repository''), precondition_notice s)"
  by (simp add: uploadFileToRepository_def uploadFileToRepository_try_unbound
      uploadFileToRepository_catch_def catch_log_native)

lemma createGithubPage_try_unbound:
  "octokit_binding env = None \<Longrightarrow>
     createGithubPage_try env s =
       (Some (if nullish (user s) then TypeError ''login''
              else if nullish (repository s) then TypeError ''name''
              else ReferenceError ''octokit''), s)"
  by (simp add: createGithubPage_try_def member_def)

lemma createGithubPage_unbound:
  "octokit_binding env = None \<Longrightarrow>
     createGithubPage env s =
       (if nullish (repository s) then (Threw (TypeError ''name''), s)
        else (case to_string (property (repository s) ''name'') of
                Inl e \<Rightarrow> (Threw e, s)
              | Inr name_text \<Rightarrow>
                  (Returned JUndefined,
                   console_log
                     (JStr (''Can't create a Github Pages for the repository '' @ name_text))
                     s)))"
  by (simp add: createGithubPage_def createGithubPage_try_unbound createGithubPage_catch_def
      catch_log_native member_def split: sum.splits)

lemma authenticate_unbound:
  "octokit_binding env = None \<Longrightarrow>
     user (snd (authenticate env username token s)) = user s \<and>
     repository (snd (authenticate env username token s)) = repository s \<and>
     sent (snd (authenticate env username token s)) = sent s"
  by (simp add: authenticate_def Let_def getUser_unbound console_log_fields sent_console_log
      sent_field_updates)

lemma perform_unbound:
  assumes "octokit_binding env = None" and "repository_binding env = None"
  shows "user (snd (perform env x s)) = user s"
    and "repository (snd (perform env x s)) = repository s"
    and "sent (snd (perform env x s)) = sent s"
  using assms
  by (cases x; simp add: authenticate_unbound getUser_unbound createRepository_unbound
      getRepository_unbound uploadFileToRepository_unbound createGithubPage_unbound
      console_log_fields sent_console_log precondition_notice_fields split: sum.splits)+

lemma run_unbound:
  assumes "octokit_binding env = None" and "repository_binding env = None"
  shows "user (run env xs s) = user s \<and> repository (run env xs s) = repository s
     \<and> sent (run env xs s) = sent s"
  using assms
  by (induction xs arbitrary: s) (simp_all add: perform_unbound)

lemma new_ICONPortfolio_fields:
  "user new_ICONPortfolio = JNull"
  "repository new_ICONPortfolio = JNull"
  "sent new_ICONPortfolio = []"
  by (simp_all add: new_ICONPortfolio_def sent_def)

text \<open>
  C10. Every request of the class goes through the bare identifier \<open>octokit\<close>, which
  the module binds nowhere (only the field \<open>this.octokit\<close> is assigned). So in the
  module as it stands the \<open>try\<close> block of each of the five network-backed methods
  raises, in every state, before a request is sent; and whatever sequence of calls is
  made on a new client, with every call's completion ignored or not, the session's user
  and repository are still null afterwards and nothing has been sent.
\<close>

theorem octokit_is_never_bound:
  "octokit_binding (node_module token uuids) = None
   \<and> getUser_try (node_module token uuids) username s = (Some (ReferenceError ''octokit''), s)
   \<and> createRepository_try (node_module token uuids) name s
       = (Some (ReferenceError ''octokit''), s)
   \<and> getRepository_try (node_module token uuids) repo s
       = (Some (if nullish (user s) then TypeError ''login'' else ReferenceError ''octokit''), s)
   \<and> uploadFileToRepository_try (node_module token uuids) filePath file_content s
       = (Some (if nullish (user s) then TypeError ''login''
                else if nullish (repository s) then TypeError ''name''
                else ReferenceError ''octokit''),
          precondition_notice s)
   \<and> sent (precondition_notice s) = sent s
   \<and> createGithubPage_try (node_module token uuids) s
       = (Some (if nullish (user s) then TypeError ''login''
                else if nullish (repository s) then TypeError ''name''
                else ReferenceError ''octokit''), s)
   \<and> user (run (node_module token uuids) calls new_ICONPortfolio) = JNull
   \<and> repository (run (node_module token uuids) calls new_ICONPortfolio) = JNull
   \<and> sent (run (node_module token uuids) calls new_ICONPortfolio) = []"
  using run_unbound [of "node_module token uuids" calls new_ICONPortfolio]
  by (simp add: node_module_fields getUser_try_unbound createRepository_try_unbound
      getRepository_try_unbound uploadFileToRepository_try_unbound
      createGithubPage_try_unbound precondition_notice_fields new_ICONPortfolio_fields)

text \<open>
  The example call that ends the module, run without \<open>AUTH_TOKEN\<close>: four lines on the
  console, then the third call throws and \<open>createGithubPage\<close> is never reached.
\<close>

lemma example_call_aborts:
  "script (node_module None fixed_uuid) example_call new_ICONPortfolio =
     (Threw (ReferenceError ''repository''),
      \<lparr>octokit = Some (Octokit None), user = JNull, repository = JNull,
       events =
         [Log (JStr ''Can't authenticate to Octokit with invalid token. Please recheck your token''),
          Log (JStr ''Can't get username for user iconclub. Please try again.''),
          Log (JStr ''Can't create a new repository. Please try again.''),
          Log (JStr ''Please authenticate and create repository methods before uploading a file'')],
       uuid_calls = 0\<rparr>)"
  by (simp add: example_call_def authenticate_def Let_def node_module_fields getUser_unbound
      createRepository_unbound uploadFileToRepository_unbound precondition_notice_def
      console_log_def new_ICONPortfolio_def)

text \<open>
  C9. \<open>authenticate('octo-user', 'tok_abc')\<close> on a new client: the handle is
  constructed and stored in \<open>this.octokit\<close>, then \<open>getUser\<close> reads the unbound
  \<open>octokit\<close>; the ReferenceError is caught and logged as the fallback message, no
  request is sent, and the session's user is still null when the call returns. In the
  module as it stands no call of \<open>authenticate\<close> changes the user or sends a request.
\<close>

theorem authenticate_leaves_user_null:
  "authenticate (node_module None fixed_uuid) ''octo-user'' (Some ''tok_abc'') new_ICONPortfolio =
     (Returned JUndefined,
      \<lparr>octokit = Some (Octokit (Some ''tok_abc'')), user = JNull, repository = JNull,
       events = [Log (JStr ''Can't get username for user octo-user. Please try again.'')],
       uuid_calls = 0\<rparr>)
   \<and> user (snd (authenticate (node_module configured uuids) username token s)) = user s
   \<and> sent (snd (authenticate (node_module configured uuids) username token s)) = sent s"
  using authenticate_unbound [of "node_module configured uuids" username token s]
  by (simp add: authenticate_def Let_def node_module_fields getUser_unbound console_log_def
      new_ICONPortfolio_def)

text \<open>
  C5. Two successive calls of \<open>createRepository()\<close> without a name on a new client:
  neither sends a \<open>POST /user/repos\<close> request and neither reaches \<open>uuidv4()\<close>, whose
  call is an argument of the request that the unbound \<open>octokit\<close> prevents; each logs
  the fallback message and the repository stays null. In the module as it stands
  every call of \<open>createRepository\<close> does just that, in every state.
\<close>

theorem createRepository_sends_no_name:
  "run (node_module None fixed_uuid) [CreateRepository None, CreateRepository None]
       new_ICONPortfolio =
     \<lparr>octokit = None, user = JNull, repository = JNull,
      events = [Log (JStr ''Can't create a new repository. Please try again.''),
                Log (JStr ''Can't create a new repository. Please try again.'')],
      uuid_calls = 0\<rparr>
   \<and> createRepository (node_module configured uuids) name s =
       (Returned JUndefined,
        console_log (JStr ''Can't create a new repository. Please try again.'') s)"
  by (simp add: node_module_fields createRepository_unbound console_log_def
      new_ICONPortfolio_def)

text \<open>
  C6. \<open>uploadFileToRepository('index.html', '<html></html>')\<close> in a session whose user
  and repository are set: the content is encoded, then the unbound \<open>octokit\<close> raises
  before the \<open>PUT\<close> request is sent, and the \<open>catch\<close> block raises in turn on the
  out-of-scope \<open>repository\<close>. The call throws and the trace stays empty. In the
  module as it stands every call of \<open>uploadFileToRepository\<close> throws that error and
  sends nothing.
\<close>

theorem uploadFileToRepository_sends_nothing:
  "uploadFileToRepository (node_module None fixed_uuid) ''index.html''
       (ascii ''<html></html>'') octo_session =
     (Threw (ReferenceError ''repository''), octo_session)
   \<and> events octo_session = []
   \<and> uploadFileToRepository (node_module configured uuids) filePath file_content s =
       (Threw (ReferenceError ''repository''), precondition_notice s)
   \<and> sent (precondition_notice s) = sent s"
  by (simp add: node_module_fields uploadFileToRepository_unbound precondition_notice_def
      sent_console_log octo_session_def new_ICONPortfolio_def)

text \<open>
  C4. \<open>getRepository('missing-repo')\<close> in a session whose user and repository are
  set, with a remote that would answer 404: the unbound \<open>octokit\<close> raises before the
  request is sent, so there is no answer to report. The \<open>catch\<close> block logs its own
  fallback message, not the remote's, and the promise is fulfilled with undefined.
  The repository is untouched. In the module as it stands every call of
  \<open>getRepository\<close> ends so, in every state.
\<close>

theorem getRepository_reports_no_remote_message:
  "getRepository (node_module None fixed_uuid) ''missing-repo'' octo_session =
     (Returned JUndefined,
      octo_session\<lparr>events :=
        [Log (JStr ''Can't get the detail of the repository missing-repo'')]\<rparr>)
   \<and> getRepository (node_module configured uuids) name s =
       (Returned JUndefined,
        console_log (JStr (''Can't get the detail of the repository '' @ name)) s)
   \<and> sent (snd (getRepository (node_module configured uuids) name s)) = sent s
   \<and> repository (snd (getRepository (node_module configured uuids) name s)) = repository s"
  by (simp add: node_module_fields getRepository_unbound console_log_def sent_def
      sent_of_append octo_session_def new_ICONPortfolio_def)

text \<open>
  C7. \<open>createGithubPage()\<close> in a session whose user and repository are set: the
  unbound \<open>octokit\<close> raises before the \<open>POST\<close> request is sent; the \<open>catch\<close> block
  logs the fallback message and the promise is fulfilled with undefined. In the module
  as it stands no call of \<open>createGithubPage\<close> sends a request, and none ends with a
  value other than undefined: it throws, or its promise is fulfilled with undefined.
\<close>

theorem createGithubPage_sends_no_request:
  "createGithubPage (node_module None fixed_uuid) octo_session =
     (Returned JUndefined,
      octo_session\<lparr>events :=
        [Log (JStr ''Can't create a Github Pages for the repository demo-site'')]\<rparr>)
   \<and> sent (snd (createGithubPage (node_module configured uuids) s)) = sent s
   \<and> (fst (createGithubPage (node_module configured uuids) s) = Returned JUndefined
        \<or> fst (createGithubPage (node_module configured uuids) s) = Threw (TypeError ''name'')
        \<or> fst (createGithubPage (node_module configured uuids) s)
             = Threw (TypeError ''toString''))"
proof -
  have unbound: "octokit_binding (node_module c u) = None" for c u
    by (simp add: node_module_fields)
  have concrete: "createGithubPage (node_module None fixed_uuid) octo_session =
     (Returned JUndefined,
      octo_session\<lparr>events :=
        [Log (JStr ''Can't create a Github Pages for the repository demo-site'')]\<rparr>)"
    by (simp add: createGithubPage_unbound [OF unbound] console_log_def octo_session_def
        new_ICONPortfolio_def)
  have nothing_sent: "sent (snd (createGithubPage (node_module configured uuids) s)) = sent s"
    by (simp add: createGithubPage_unbound [OF unbound] sent_console_log split: sum.splits)
  have raised: "to_string v = Inl e \<Longrightarrow> e = TypeError ''toString''" for v e
    by (cases v) (simp_all split: option.splits)
  have completion:
    "fst (createGithubPage (node_module configured uuids) s) = Returned JUndefined
     \<or> fst (createGithubPage (node_module configured uuids) s) = Threw (TypeError ''name'')
     \<or> fst (createGithubPage (node_module configured uuids) s) = Threw (TypeError ''toString'')"
    by (auto simp add: createGithubPage_unbound [OF unbound] split: sum.splits dest: raised)
  from concrete nothing_sent completion show ?thesis
    by blast
qed

section \<open>Guards that log and go on\<close>

text \<open>
  C1. With the user or the repository unset, \<open>uploadFileToRepository\<close> logs its
  notice and goes on: reading \<open>login\<close> or \<open>name\<close> off null raises a TypeError, and
  the \<open>catch\<close> block, finding no remote message, raises a ReferenceError on
  \<open>repository\<close>. No request is sent; the call throws.
\<close>

theorem uploadFileToRepository_without_session:
  assumes "repository_binding env = None"
    and "nullish (user s) \<or> nullish (repository s)"
  shows "uploadFileToRepository env filePath file_content s =
     (Threw (ReferenceError ''repository''),
      console_log
        (JStr ''Please authenticate and create repository methods before uploading a file'') s)"
proof -
  have f: "falsy (user s) \<or> falsy (repository s)"
    using assms(2) by (cases "user s"; cases "repository s") simp_all
  have "uploadFileToRepository_try env filePath file_content s =
     (Some (if nullish (user s) then TypeError ''login'' else TypeError ''name''),
      console_log
        (JStr ''Please authenticate and create repository methods before uploading a file'') s)"
    using assms(2) f
    by (auto simp add: uploadFileToRepository_try_def precondition_notice_def member_def
        console_log_fields Let_def)
  then show ?thesis
    using assms(1)
    by (simp add: uploadFileToRepository_def uploadFileToRepository_catch_def catch_log_native)
qed

theorem uploadFileToRepository_without_session_witness:
  "repository_binding (node_module None fixed_uuid) = None
   \<and> nullish (user new_ICONPortfolio)
   \<and> uploadFileToRepository (node_module None fixed_uuid) ''index.html''
        (ascii ''<html></html>'') new_ICONPortfolio =
      (Threw (ReferenceError ''repository''),
       \<lparr>octokit = None, user = JNull, repository = JNull,
        events =
          [Log (JStr ''Please authenticate and create repository methods before uploading a file'')],
        uuid_calls = 0\<rparr>)"
proof -
  have b: "repository_binding (node_module None fixed_uuid) = None"
    by (simp add: node_module_fields)
  have n: "nullish (user new_ICONPortfolio)"
    by (simp add: new_ICONPortfolio_def)
  then have "nullish (user new_ICONPortfolio) \<or> nullish (repository new_ICONPortfolio)"
    by simp
  from uploadFileToRepository_without_session [OF b this] b n show ?thesis
    by (simp add: console_log_def new_ICONPortfolio_def)
qed

text \<open>
  C3. \<open>createGithubPage\<close> throws in a session without a repository: the \<open>try\<close> block
  raises a TypeError, and the fallback message of the \<open>catch\<close> block reads
  \<open>this.repository.name\<close> off null again.
\<close>

theorem createGithubPage_without_repository:
  assumes "nullish (repository s)"
  shows "createGithubPage env s = (Threw (TypeError ''name''), s)"
proof -
  have "createGithubPage_try env s =
      (Some (if nullish (user s) then TypeError ''login'' else TypeError ''name''), s)"
    using assms by (simp add: createGithubPage_try_def member_def)
  then show ?thesis
    using assms
    by (simp add: createGithubPage_def createGithubPage_catch_def catch_log_native member_def)
qed

theorem createGithubPage_without_repository_witness:
  "nullish (repository new_ICONPortfolio)
   \<and> createGithubPage (node_module None fixed_uuid) new_ICONPortfolio
       = (Threw (TypeError ''name''), new_ICONPortfolio)"
proof -
  have n: "nullish (repository new_ICONPortfolio)"
    by (simp add: new_ICONPortfolio_def)
  from createGithubPage_without_repository [OF n] n show ?thesis
    by simp
qed



section \<open>What the methods would send: a remote under the global name \<open>octokit\<close>\<close>

text \<open>
  Nothing in the repository puts a remote under the global name \<open>octokit\<close>; the
  lemmas of this section say what the methods are written to do if something did.
  \<open>getUser\<close> stores the profile it is sent, \<open>createRepository()\<close> draws one identifier
  and sends the generated name, \<open>uploadFileToRepository\<close> sends one \<open>PUT\<close> with the
  base64 of the content, \<open>getRepository\<close> leaves the repository alone when its request
  is rejected, and \<open>createGithubPage\<close> logs the URL of the answer without returning
  it.
\<close>

lemma with_global_octokit_fields:
  "octokit_binding (with_global_octokit api env) = Some api"
  "repository_binding (with_global_octokit api env) = repository_binding env"
  "AUTH_TOKEN (with_global_octokit api env) = AUTH_TOKEN env"
  "uuidv4 (with_global_octokit api env) = uuidv4 env"
  by (simp_all add: with_global_octokit_def)

lemma octo_session_fields:
  "user octo_session = JObj [(''login'', JStr ''octo-user'')]"
  "repository octo_session = JObj [(''name'', JStr ''demo-site'')]"
  "events octo_session = []"
  "sent octo_session = []"
  by (simp_all add: octo_session_def new_ICONPortfolio_def sent_def)

lemma getUser_resolved:
  assumes "octokit_binding env = Some api"
    and "rq = \<lparr>route = ''GET /users/'' @ username, params = [(''username'', JStr username)]\<rparr>"
    and "api (sent s) rq = Resolved r"
    and "member r ''data'' = Inr d"
    and "member d ''login'' = Inr login"
    and "to_string login = Inr login_text"
  shows "getUser env username s =
     (Returned JUndefined,
      s\<lparr>user := d,
        events := events s @ [Sent rq, Log (JStr (login_text @ '' is authenticated''))]\<rparr>)"
  using assms
  by (simp add: getUser_def getUser_try_def await_request_def console_log_def)

lemma createRepository_try_sends:
  assumes "octokit_binding env = Some api"
  shows "sent (snd (createRepository_try env None s)) =
           sent s @ [\<lparr>route = ''POST /user/repos'',
                      params = [(''name'',
                         JStr (''ICON Web Portfolio '' @ uuidv4 env (uuid_calls s)))]\<rparr>]
         \<and> uuid_calls (snd (createRepository_try env None s)) = Suc (uuid_calls s)"
  using assms
  by (simp add: createRepository_try_def await_request_def sent_def sent_of_append
      console_log_def split: response.splits sum.splits)

lemma uploadFileToRepository_try_sends:
  assumes "octokit_binding env = Some api"
    and "member (user s) ''login'' = Inr owner"
    and "member (repository s) ''name'' = Inr repo"
    and "to_string owner = Inr owner_text"
    and "to_string repo = Inr repo_text"
  shows "sent (snd (uploadFileToRepository_try env filePath file_content s)) =
           sent s @ [\<lparr>route = ''PUT /repos/'' @ owner_text @ ''/'' @ repo_text
                               @ ''/contents/'' @ filePath,
                      params = [(''owner'', owner), (''repo'', repo),
                                (''path'', JStr filePath),
                                (''message'', JStr (''create a new '' @ filePath)),
                                (''content'', JStr (convertToBase64 file_content))]\<rparr>]"
  using assms
  by (simp add: uploadFileToRepository_try_def await_request_def sent_def sent_of_append
      console_log_def precondition_notice_def Let_def split: response.splits)

lemma getRepository_rejected:
  assumes "octokit_binding env = Some api"
    and "member (user s) ''login'' = Inr owner"
    and "to_string owner = Inr owner_text"
    and "rq = \<lparr>route = ''GET /repos/'' @ owner_text @ ''/'' @ name,
               params = [(''owner'', owner), (''repo'', JStr name)]\<rparr>"
    and "api (sent s) rq = Rejected e"
    and "remote_message (Rejection e) = Inr m"
  shows "getRepository env name s =
     (Returned JUndefined,
      s\<lparr>events := events s @
           [Sent rq,
            Log (if nullish m then JStr (''Can't get the detail of the repository '' @ name)
                 else m)]\<rparr>)"
  using assms
  by (simp add: getRepository_def getRepository_try_def await_request_def
      getRepository_catch_def catch_log_def console_log_def)

lemma getRepository_missing_with_global:
  "getRepository (with_global_octokit missing_repository_remote (node_module None fixed_uuid))
       ''missing-repo'' octo_session =
     (Returned JUndefined,
      octo_session\<lparr>events :=
        [Sent \<lparr>route = ''GET /repos/octo-user/missing-repo'',
               params = [(''owner'', JStr ''octo-user''), (''repo'', JStr ''missing-repo'')]\<rparr>,
         Log (JStr ''Not Found'')]\<rparr>)"
  by (simp add: getRepository_def getRepository_try_def getRepository_catch_def
      with_global_octokit_fields octo_session_fields member_def await_request_def
      missing_repository_remote_def not_found_def catch_log_def remote_message_def
      optional_member_def console_log_def)

lemma createGithubPage_resolved:
  assumes "octokit_binding env = Some api"
    and "member (user s) ''login'' = Inr owner"
    and "member (repository s) ''name'' = Inr repo"
    and "to_string owner = Inr owner_text"
    and "to_string repo = Inr repo_text"
    and "rq = \<lparr>route = ''POST /repos/'' @ owner_text @ ''/'' @ repo_text @ ''/pages'',
               params = [(''owner'', owner), (''repo'', repo),
                         (''source'', JObj [(''branch'', JStr ''main''), (''path'', JStr ''/'')]),
                         (''build_type'', JStr ''workflow'')]\<rparr>"
    and "api (sent s) rq = Resolved r"
    and "member r ''data'' = Inr d"
    and "member d ''url'' = Inr url"
    and "to_string url = Inr url_text"
  shows "createGithubPage env s =
     (Returned JUndefined,
      s\<lparr>events := events s @ [Sent rq, Log (JStr (url_text @ '' is being created''))]\<rparr>)"
  using assms
  by (simp add: createGithubPage_def createGithubPage_try_def await_request_def console_log_def)

lemma createGithubPage_with_global:
  "createGithubPage (with_global_octokit pages_remote (node_module None fixed_uuid))
       octo_session =
     (Returned JUndefined,
      octo_session\<lparr>events :=
        [Sent \<lparr>route = ''POST /repos/octo-user/demo-site/pages'',
               params = [(''owner'', JStr ''octo-user''), (''repo'', JStr ''demo-site''),
                         (''source'', JObj [(''branch'', JStr ''main''), (''path'', JStr ''/'')]),
                         (''build_type'', JStr ''workflow'')]\<rparr>,
         Log (JStr ''https://octo-user.github.io/demo-site/ is being created'')]\<rparr>)"
  by (simp add: createGithubPage_def createGithubPage_try_def with_global_octokit_fields
      octo_session_fields member_def await_request_def pages_remote_def console_log_def)

text \<open>
  An object with a field of its own named \<open>toString\<close> cannot be interpolated: with
  such a login, \<open>getRepository\<close> raises on its route before sending anything.
\<close>

lemma getRepository_owner_not_convertible:
  "getRepository_try (with_global_octokit missing_repository_remote (node_module None fixed_uuid))
       ''missing-repo''
       (octo_session\<lparr>user := JObj [(''login'', JObj [(''toString'', JStr ''x'')])]\<rparr>) =
     (Some (TypeError ''toString''),
      octo_session\<lparr>user := JObj [(''login'', JObj [(''toString'', JStr ''x'')])]\<rparr>)"
  by (simp add: getRepository_try_def with_global_octokit_fields member_def)

end
